theory Spec2Isabelle
  imports Main
begin

section \<open>Run-time values\<close>

text \<open>
  TypeScript's types are erased when \<^verbatim>\<open>connectionProfile.ts\<close> runs: a field
  declared \<^verbatim>\<open>string\<close> reads \<^verbatim>\<open>undefined\<close> until it is assigned, and
  the answer handed to a question's callback has type \<^verbatim>\<open>any\<close>. The model keeps
  the primitive values the file handles (strings, booleans, \<^verbatim>\<open>undefined\<close>,
  \<^verbatim>\<open>null\<close>) in one datatype. The strict equality \<^verbatim>\<open>===\<close> of two
  primitives is equality of the datatype.
\<close>

datatype jsvalue = JUndefined | JNull | JBool bool | JStr string

text \<open>
  What \<^verbatim>\<open>if (v)\<close>, \<^verbatim>\<open>!v\<close>, \<^verbatim>\<open>v ? a : b\<close> and \<^verbatim>\<open>v && w\<close>
  test: a string is truthy when it has a character.
\<close>

fun truthy :: "jsvalue \<Rightarrow> bool" where
  "truthy JUndefined = False"
| "truthy JNull = False"
| "truthy (JBool b) = b"
| "truthy (JStr s) = (s \<noteq> [])"

text \<open>A failure raised by a collaborator (a thrown exception or a rejected promise).\<close>

datatype error = Error string

section \<open>The connection profile\<close>

text \<open>
  The class \<^verbatim>\<open>ConnectionProfile\<close> (lines 23 to 26) with the fields of its base
  class \<^verbatim>\<open>ConnectionCredentials\<close> that this file reads.
\<close>

record ConnectionProfile =
  connectionString :: jsvalue
  authenticationType :: jsvalue
  server :: jsvalue
  user :: jsvalue
  profileName :: jsvalue
  savePassword :: jsvalue
  emptyPasswordInput :: jsvalue

text \<open>
  Modelled from the spec: the base class \<^verbatim>\<open>ConnectionCredentials\<close> is not under
  src. \<^verbatim>\<open>new ConnectionProfile()\<close> (line 38) is the spec's "empty draft
  profile": no field has been assigned, so each one reads \<^verbatim>\<open>undefined\<close>.
\<close>

definition new_ConnectionProfile :: ConnectionProfile where
  "new_ConnectionProfile =
     \<lparr>connectionString = JUndefined, authenticationType = JUndefined, server = JUndefined,
      user = JUndefined, profileName = JUndefined, savePassword = JUndefined,
      emptyPasswordInput = JUndefined\<rparr>"

text \<open>
  Modelled from the spec: the enumeration \<^verbatim>\<open>AuthenticationTypes\<close> is declared in
  \<^verbatim>\<open>interfaces.ts\<close>, which is not under src. The source names the members
  \<^verbatim>\<open>Integrated\<close> and \<^verbatim>\<open>ActiveDirectoryUniversal\<close>, the spec adds
  \<^verbatim>\<open>SqlLogin\<close>. \<^verbatim>\<open>AuthenticationTypes[AuthenticationTypes.X]\<close> is the
  reverse mapping of a numeric enumeration: the name of the member, as a string.
\<close>

datatype AuthenticationTypes = Integrated | SqlLogin | ActiveDirectoryUniversal

fun AuthenticationTypes_name :: "AuthenticationTypes \<Rightarrow> jsvalue" where
  "AuthenticationTypes_name Integrated = JStr ''Integrated''"
| "AuthenticationTypes_name SqlLogin = JStr ''SqlLogin''"
| "AuthenticationTypes_name ActiveDirectoryUniversal = JStr ''ActiveDirectoryUniversal''"

text \<open>
  Modelled from the spec: \<^verbatim>\<open>utils.isNotEmpty\<close> is not under src. The spec calls
  it "non-empty": the value is set and is not the empty string.
\<close>

definition isNotEmpty :: "jsvalue \<Rightarrow> bool" where
  "isNotEmpty str = (truthy str \<and> str \<noteq> JStr [])"

text \<open>
  \<^verbatim>\<open>isValidProfile\<close> (lines 91 to 106). Its callers test the result for
  truthiness only, so the model returns that.
\<close>

definition isValidProfile :: "ConnectionProfile \<Rightarrow> bool" where
  "isValidProfile this =
     (if truthy (connectionString this) then True
      else if truthy (authenticationType this) then
        (if authenticationType this = AuthenticationTypes_name Integrated \<or>
            authenticationType this = AuthenticationTypes_name ActiveDirectoryUniversal
         then isNotEmpty (server this)
         else isNotEmpty (server this) \<and> isNotEmpty (user this))
      else False)"

text \<open>\<^verbatim>\<open>isAzureActiveDirectory\<close> (lines 108 to 110).\<close>

definition isAzureActiveDirectory :: "ConnectionProfile \<Rightarrow> bool" where
  "isAzureActiveDirectory this =
     (authenticationType this = AuthenticationTypes_name ActiveDirectoryUniversal)"

text \<open>
  The validity rule in the words of the spec's data model, to compare with the code: a
  profile is valid iff (a) it carries a non-empty connection string, or (b) it carries an
  authentication type and a non-empty server and, unless the authentication type is one
  of the "no explicit user" modes, a non-empty user.
\<close>

definition no_explicit_user_mode :: "jsvalue \<Rightarrow> bool" where
  "no_explicit_user_mode a =
     (a = AuthenticationTypes_name Integrated \<or>
      a = AuthenticationTypes_name ActiveDirectoryUniversal)"

definition valid_spec :: "ConnectionProfile \<Rightarrow> bool" where
  "valid_spec draft =
     (isNotEmpty (connectionString draft) \<or>
      (truthy (authenticationType draft) \<and> isNotEmpty (server draft) \<and>
       (no_explicit_user_mode (authenticationType draft) \<or> isNotEmpty (user draft))))"

section \<open>Questions\<close>

text \<open>
  Modelled from the spec: \<^verbatim>\<open>INameValueChoice\<close>, \<^verbatim>\<open>QuestionTypes\<close>
  and \<^verbatim>\<open>IQuestion\<close> are declared in \<^verbatim>\<open>prompts/question.ts\<close>, which is
  not under src. A choice is a display name with a value. The source names the question
  kinds \<^verbatim>\<open>confirm\<close> and \<^verbatim>\<open>input\<close>. A question descriptor has the
  fields the object literals of lines 51 to 68 set; a field a literal leaves out is
  \<^verbatim>\<open>undefined\<close> (\<open>None\<close> for a callback).
\<close>

record INameValueChoice =
  choice_name :: string
  choice_value :: jsvalue

datatype QuestionTypes = QuestionTypes_confirm | QuestionTypes_input | QuestionTypes_other string

text \<open>The answer set: the answers given so far, by question name, in the order given.\<close>

type_synonym answers = "(string \<times> jsvalue) list"

text \<open>
  The closures of lines 55, 56 and 64 capture the variable \<^verbatim>\<open>profile\<close> and read
  or assign the object's fields when they are called. The model passes the state of that
  object explicitly: a visibility predicate reads the current draft, an answer callback
  returns the updated draft.
\<close>

record IQuestion =
  qtype :: QuestionTypes
  qname :: string
  message :: string
  placeHolder :: "string option"
  qdefault :: jsvalue
  shouldPrompt :: "(answers \<Rightarrow> ConnectionProfile \<Rightarrow> bool) option"
  onAnswered :: "(jsvalue \<Rightarrow> ConnectionProfile \<Rightarrow> ConnectionProfile) option"

text \<open>
  The strings of \<^verbatim>\<open>constants/localizedConstants\<close> that the file uses; the module
  is not under src, so they are parameters.
\<close>

record LocalizedConstants =
  msgSavePassword :: string
  profileNamePrompt :: string
  profileNamePlaceholder :: string

section \<open>The collaborators\<close>

text \<open>
  The value \<^verbatim>\<open>startLogin()\<close> returns (line 79). The code logs it and never
  awaits it, so the login may still be running, or have succeeded or failed, when
  \<^verbatim>\<open>createProfile\<close> settles.
\<close>

datatype login = LoginPending | LoginSucceeded | LoginFailed error

text \<open>
  Modelled from the spec: the credential layer (\<^verbatim>\<open>ConnectionCredentials\<close>), the
  controller (\<^verbatim>\<open>AzureController\<close>) and the grant handler
  (\<^verbatim>\<open>AzureCodeGrant\<close>) are not under src. Their behaviour is a parameter of the
  model, in the shapes of the spec's external interfaces:
  \<^item> \<open>getAuthenticationTypesChoice\<close> is the ordered list of choices;
  \<^item> \<open>getRequiredCredentialValuesQuestions\<close> maps the draft, the two flags, the
    connection store and the optional defaults to an ordered list of questions;
  \<^item> \<open>isPasswordBasedCredential\<close> is the external classifier;
  \<^item> \<open>azureController_init\<close> is the failure \<^verbatim>\<open>await azureController.init()\<close>
    raises, if any;
  \<^item> \<open>azureCodeGrant_startLogin\<close> is the failure \<^verbatim>\<open>startLogin()\<close> throws, or
    the value it returns.
  The connection store is opaque: a type variable.
\<close>

record 'store world =
  localizedConstants :: LocalizedConstants
  getAuthenticationTypesChoice :: "INameValueChoice list"
  getRequiredCredentialValuesQuestions ::
    "ConnectionProfile \<Rightarrow> bool \<Rightarrow> bool \<Rightarrow> 'store \<Rightarrow> ConnectionProfile option \<Rightarrow> IQuestion list"
  isPasswordBasedCredential :: "ConnectionProfile \<Rightarrow> bool"
  azureController_init :: "error option"
  azureCodeGrant_startLogin :: "error + login"

text \<open>
  Modelled from the spec: the prompting capability (\<^verbatim>\<open>IPrompter\<close>) is not under
  src. \<^verbatim>\<open>prompt(questions, flag)\<close> resolves to an answer set or to
  \<^verbatim>\<open>undefined\<close> (\<open>None\<close>: the user aborted); while it runs it may call the
  questions' callbacks, so it also returns the draft as they left it.
\<close>

type_synonym prompter =
  "IQuestion list \<Rightarrow> bool \<Rightarrow> ConnectionProfile \<Rightarrow> answers option \<times> ConnectionProfile"

section \<open>createProfile\<close>

text \<open>
  Lines 40 to 44: with exactly one authentication choice, its value is assigned to the
  draft. \<^verbatim>\<open>authOptions[0]\<close> is read only when the length is 1, so it is in
  range.
\<close>

definition presetAuthenticationType ::
  "INameValueChoice list \<Rightarrow> ConnectionProfile \<Rightarrow> ConnectionProfile" where
  "presetAuthenticationType authOptions profile =
     (if length authOptions = 1
      then profile\<lparr>authenticationType := choice_value (authOptions ! 0)\<rparr>
      else profile)"

text \<open>The draft when the questions are built and the prompt starts (lines 38 to 44).\<close>

definition draftBeforePrompt :: "'store world \<Rightarrow> ConnectionProfile" where
  "draftBeforePrompt w =
     presetAuthenticationType (getAuthenticationTypesChoice w) new_ConnectionProfile"

text \<open>
  The closures of the two appended questions: \<^verbatim>\<open>shouldPrompt\<close> of line 55
  (\<^verbatim>\<open>&&\<close> does not call the classifier when the draft has a connection string),
  \<^verbatim>\<open>onAnswered\<close> of line 56 and \<^verbatim>\<open>onAnswered\<close> of lines 64 to 67.
\<close>

definition savePassword_shouldPrompt ::
  "'store world \<Rightarrow> answers \<Rightarrow> ConnectionProfile \<Rightarrow> bool" where
  "savePassword_shouldPrompt w answers profile =
     (\<not> truthy (connectionString profile) \<and> isPasswordBasedCredential w profile)"

definition savePassword_onAnswered :: "jsvalue \<Rightarrow> ConnectionProfile \<Rightarrow> ConnectionProfile" where
  "savePassword_onAnswered v profile = profile\<lparr>savePassword := v\<rparr>"

definition profileName_onAnswered :: "jsvalue \<Rightarrow> ConnectionProfile \<Rightarrow> ConnectionProfile" where
  "profileName_onAnswered v profile =
     profile\<lparr>profileName := (if truthy v then v else JUndefined)\<rparr>"

text \<open>The two question literals of lines 51 to 57 and 58 to 68.\<close>

definition savePasswordQuestion :: "'store world \<Rightarrow> IQuestion" where
  "savePasswordQuestion w =
     \<lparr>qtype = QuestionTypes_confirm,
      qname = msgSavePassword (localizedConstants w),
      message = msgSavePassword (localizedConstants w),
      placeHolder = None,
      qdefault = JUndefined,
      shouldPrompt = Some (savePassword_shouldPrompt w),
      onAnswered = Some savePassword_onAnswered\<rparr>"

definition profileNameQuestion :: "'store world \<Rightarrow> ConnectionProfile option \<Rightarrow> IQuestion" where
  "profileNameQuestion w defaultProfileValues =
     \<lparr>qtype = QuestionTypes_input,
      qname = profileNamePrompt (localizedConstants w),
      message = profileNamePrompt (localizedConstants w),
      placeHolder = Some (profileNamePlaceholder (localizedConstants w)),
      qdefault = (case defaultProfileValues of
                    Some d \<Rightarrow> profileName d
                  | None \<Rightarrow> JUndefined),
      shouldPrompt = None,
      onAnswered = Some profileName_onAnswered\<rparr>"

text \<open>
  Lines 46 to 68: the credential layer's questions for the draft, then
  \<^verbatim>\<open>questions.push\<close> of the two literals.
\<close>

definition buildQuestions ::
  "'store world \<Rightarrow> ConnectionProfile \<Rightarrow> 'store \<Rightarrow> ConnectionProfile option \<Rightarrow> IQuestion list" where
  "buildQuestions w profile connectionStore defaultProfileValues =
     getRequiredCredentialValuesQuestions w profile True False connectionStore defaultProfileValues
       @ [savePasswordQuestion w, profileNameQuestion w defaultProfileValues]"

text \<open>
  The calls the continuation of lines 70 to 87 makes, in order, so that "is invoked" and
  "is never run" can be stated.
\<close>

datatype call =
    Call_AzureController_new
  | Call_init
  | Call_AzureCodeGrant_new
  | Call_startLogin
  | Call_console_log login
  | Call_isValidProfile

text \<open>
  Lines 72 to 80, the authentication exchange: the calls made, and the failure raised if
  any. A failure of \<^verbatim>\<open>init\<close> ends the exchange at line 73, a throw of
  \<^verbatim>\<open>startLogin\<close> at line 79; nothing catches either.
\<close>

definition authenticationExchange :: "'store world \<Rightarrow> call list \<times> error option" where
  "authenticationExchange w =
     (case azureController_init w of
        Some e \<Rightarrow> ([Call_AzureController_new, Call_init], Some e)
      | None \<Rightarrow>
          (case azureCodeGrant_startLogin w of
             Inl e \<Rightarrow>
               ([Call_AzureController_new, Call_init, Call_AzureCodeGrant_new, Call_startLogin],
                Some e)
           | Inr test \<Rightarrow>
               ([Call_AzureController_new, Call_init, Call_AzureCodeGrant_new, Call_startLogin,
                 Call_console_log test],
                None)))"

text \<open>
  What a call of \<^verbatim>\<open>createProfile\<close> comes to: the promise rejects with a failure
  (\<open>Inl\<close>), or resolves to \<^verbatim>\<open>undefined\<close> (\<open>Inr None\<close>) or to the profile.
\<close>

record outcome =
  result :: "error + ConnectionProfile option"
  calls :: "call list"

text \<open>
  The continuation of lines 70 to 87, on the draft as the prompt left it and the answers
  it resolved to. The test of line 71 comes first and does not look at the answers;
  \<^verbatim>\<open>answers && profile.isValidProfile()\<close> calls the validator only when the
  answers are an object.
\<close>

definition promptCompleted ::
  "'store world \<Rightarrow> ConnectionProfile \<Rightarrow> answers option \<Rightarrow> outcome" where
  "promptCompleted w profile answers =
     (let (cs, failure) =
            (if isAzureActiveDirectory profile then authenticationExchange w else ([], None))
      in case failure of
           Some e \<Rightarrow> \<lparr>result = Inl e, calls = cs\<rparr>
         | None \<Rightarrow>
             (case answers of
                None \<Rightarrow> \<lparr>result = Inr None, calls = cs\<rparr>
              | Some a \<Rightarrow>
                  if isValidProfile profile
                  then \<lparr>result = Inr (Some profile), calls = cs @ [Call_isValidProfile]\<rparr>
                  else \<lparr>result = Inr None, calls = cs @ [Call_isValidProfile]\<rparr>))"

text \<open>\<^verbatim>\<open>createProfile\<close> (lines 34 to 88).\<close>

definition createProfile ::
  "'store world \<Rightarrow> prompter \<Rightarrow> 'store \<Rightarrow> ConnectionProfile option \<Rightarrow> outcome" where
  "createProfile w prompter connectionStore defaultProfileValues =
     (let profile = new_ConnectionProfile;
          authOptions = getAuthenticationTypesChoice w;
          profile = presetAuthenticationType authOptions profile;
          questions = buildQuestions w profile connectionStore defaultProfileValues;
          (answers, profile) = prompter questions True profile
      in promptCompleted w profile answers)"

text \<open>
  What the prompt of line 70 resolves to within a call of \<^verbatim>\<open>createProfile\<close>:
  the answers and the draft after the callbacks.
\<close>

definition promptResult ::
  "'store world \<Rightarrow> prompter \<Rightarrow> 'store \<Rightarrow> ConnectionProfile option
     \<Rightarrow> answers option \<times> ConnectionProfile" where
  "promptResult w prompter connectionStore defaultProfileValues =
     prompter (buildQuestions w (draftBeforePrompt w) connectionStore defaultProfileValues)
       True (draftBeforePrompt w)"

text \<open>
  The authentication exchange is invoked when any of its calls was made; the validator is
  run when \<^verbatim>\<open>isValidProfile\<close> was called.
\<close>

definition exchange_invoked :: "call list \<Rightarrow> bool" where
  "exchange_invoked cs =
     (Call_AzureController_new \<in> set cs \<or> Call_init \<in> set cs \<or>
      Call_AzureCodeGrant_new \<in> set cs \<or> Call_startLogin \<in> set cs)"

definition validator_run :: "call list \<Rightarrow> bool" where
  "validator_run cs = (Call_isValidProfile \<in> set cs)"

section \<open>A prompter and a world to run the code in\<close>

text \<open>
  Modelled from the spec: the prompting capability "evaluates each question's visibility
  predicate against answers gathered so far, in sequence order, and invokes each
  question's answer-applied callback as answers are produced"; a cancellation makes it
  return the aborted result. The user is a list of responses, one for each question
  shown; a user who stops responding has aborted. A question with no predicate is shown.
\<close>

datatype response = Answer jsvalue | Escape

fun prompt_with ::
  "response list \<Rightarrow> answers \<Rightarrow> IQuestion list \<Rightarrow> ConnectionProfile
     \<Rightarrow> answers option \<times> ConnectionProfile" where
  "prompt_with rs ans [] profile = (Some ans, profile)"
| "prompt_with rs ans (q # qs) profile =
     (if (case shouldPrompt q of None \<Rightarrow> True | Some f \<Rightarrow> f ans profile) then
        (case rs of
           [] \<Rightarrow> (None, profile)
         | Escape # rest \<Rightarrow> (None, profile)
         | Answer v # rest \<Rightarrow>
             prompt_with rest (ans @ [(qname q, v)]) qs
               (case onAnswered q of None \<Rightarrow> profile | Some g \<Rightarrow> g v profile))
      else prompt_with rs ans qs profile)"

definition scripted_prompter :: "response list \<Rightarrow> prompter" where
  "scripted_prompter rs questions ignoreFocusOut profile = prompt_with rs [] questions profile"

text \<open>
  A credential layer with three choices and three questions (server, authentication type,
  user), each assigning its answer to the draft; the authentication type is asked when
  the draft has none, the user for SqlLogin, which is also the password-based mode. The
  authentication objects raise no failure and the login is still running.
\<close>

definition example_questions ::
  "ConnectionProfile \<Rightarrow> bool \<Rightarrow> bool \<Rightarrow> unit \<Rightarrow> ConnectionProfile option \<Rightarrow> IQuestion list" where
  "example_questions profile isProfile isNewServer connectionStore defaultProfileValues =
     [\<lparr>qtype = QuestionTypes_input, qname = ''server'', message = ''Server name'',
       placeHolder = None, qdefault = JUndefined, shouldPrompt = None,
       onAnswered = Some (\<lambda>v p. p\<lparr>server := v\<rparr>)\<rparr>,
      \<lparr>qtype = QuestionTypes_other ''expand'', qname = ''authenticationType'',
       message = ''Authentication type'', placeHolder = None, qdefault = JUndefined,
       shouldPrompt = Some (\<lambda>a p. \<not> truthy (authenticationType p)),
       onAnswered = Some (\<lambda>v p. p\<lparr>authenticationType := v\<rparr>)\<rparr>,
      \<lparr>qtype = QuestionTypes_input, qname = ''user'', message = ''User name'',
       placeHolder = None, qdefault = JUndefined,
       shouldPrompt = Some (\<lambda>a p. authenticationType p = AuthenticationTypes_name SqlLogin),
       onAnswered = Some (\<lambda>v p. p\<lparr>user := v\<rparr>)\<rparr>]"

definition example_world :: "unit world" where
  "example_world =
     \<lparr>localizedConstants =
        \<lparr>msgSavePassword = ''Save Password?'', profileNamePrompt = ''Profile Name'',
         profileNamePlaceholder = ''optional''\<rparr>,
      getAuthenticationTypesChoice =
        [\<lparr>choice_name = ''Integrated'', choice_value = AuthenticationTypes_name Integrated\<rparr>,
         \<lparr>choice_name = ''SQL Login'', choice_value = AuthenticationTypes_name SqlLogin\<rparr>,
         \<lparr>choice_name = ''Active Directory'',
          choice_value = AuthenticationTypes_name ActiveDirectoryUniversal\<rparr>],
      getRequiredCredentialValuesQuestions = example_questions,
      isPasswordBasedCredential =
        (\<lambda>p. authenticationType p = AuthenticationTypes_name SqlLogin),
      azureController_init = None,
      azureCodeGrant_startLogin = Inr LoginPending\<rparr>"

text \<open>The failure the authentication exchange raises, if any.\<close>

definition exchange_failure :: "'store world \<Rightarrow> error option" where
  "exchange_failure w = snd (authenticationExchange w)"

text \<open>
  Users and worlds for the runs below. The first user names a server, picks
  ActiveDirectoryUniversal and names the profile; the second leaves at the profile-name
  question. In the offline world the controller's initialisation fails; in the
  single-choice world the credential layer offers one authentication type.
\<close>

definition azure_script :: "response list" where
  "azure_script =
     [Answer (JStr ''db1''), Answer (JStr ''ActiveDirectoryUniversal''), Answer (JStr ''azure'')]"

definition azure_answers :: answers where
  "azure_answers =
     [(''server'', JStr ''db1''), (''authenticationType'', JStr ''ActiveDirectoryUniversal''),
      (''Profile Name'', JStr ''azure'')]"

definition azure_draft :: ConnectionProfile where
  "azure_draft =
     \<lparr>connectionString = JUndefined, authenticationType = JStr ''ActiveDirectoryUniversal'',
      server = JStr ''db1'', user = JUndefined, profileName = JStr ''azure'',
      savePassword = JUndefined, emptyPasswordInput = JUndefined\<rparr>"

definition abort_script :: "response list" where
  "abort_script = [Answer (JStr ''db1''), Answer (JStr ''ActiveDirectoryUniversal''), Escape]"

definition abort_draft :: ConnectionProfile where
  "abort_draft =
     \<lparr>connectionString = JUndefined, authenticationType = JStr ''ActiveDirectoryUniversal'',
      server = JStr ''db1'', user = JUndefined, profileName = JUndefined,
      savePassword = JUndefined, emptyPasswordInput = JUndefined\<rparr>"

definition offline_world :: "unit world" where
  "offline_world = example_world\<lparr>azureController_init := Some (Error ''offline'')\<rparr>"

definition single_choice_world :: "unit world" where
  "single_choice_world =
     example_world\<lparr>getAuthenticationTypesChoice :=
       [\<lparr>choice_name = ''Active Directory'',
         choice_value = AuthenticationTypes_name ActiveDirectoryUniversal\<rparr>]\<rparr>"

definition connection_string_draft :: ConnectionProfile where
  "connection_string_draft =
     \<lparr>connectionString = JStr ''Server=db1;Database=sales'',
      authenticationType = JStr ''SqlLogin'', server = JUndefined, user = JUndefined,
      profileName = JUndefined, savePassword = JUndefined, emptyPasswordInput = JUndefined\<rparr>"

definition stale_name_draft :: ConnectionProfile where
  "stale_name_draft =
     \<lparr>connectionString = JUndefined, authenticationType = JStr ''SqlLogin'',
      server = JStr ''db1'', user = JStr ''admin'', profileName = JStr ''old name'',
      savePassword = JBool True, emptyPasswordInput = JUndefined\<rparr>"

text \<open>
  What answering a question does to the draft: the question's callback, if it has one.
\<close>

definition answer_effect :: "IQuestion \<Rightarrow> jsvalue \<Rightarrow> ConnectionProfile \<Rightarrow> ConnectionProfile" where
  "answer_effect q v profile = (case onAnswered q of None \<Rightarrow> profile | Some g \<Rightarrow> g v profile)"

text \<open>
  More worlds: one where \<^verbatim>\<open>startLogin\<close> throws, one where it returns a login that
  has failed, one with a single choice and a failing controller, and one with a single
  choice whose credential layer still asks for the authentication type, with no
  visibility predicate. The last user answers that question with another type.
\<close>

definition login_throws_world :: "unit world" where
  "login_throws_world = example_world\<lparr>azureCodeGrant_startLogin := Inl (Error ''no browser'')\<rparr>"

definition failed_login_world :: "unit world" where
  "failed_login_world =
     example_world\<lparr>azureCodeGrant_startLogin := Inr (LoginFailed (Error ''denied''))\<rparr>"

definition unguarded_questions ::
  "ConnectionProfile \<Rightarrow> bool \<Rightarrow> bool \<Rightarrow> unit \<Rightarrow> ConnectionProfile option \<Rightarrow> IQuestion list" where
  "unguarded_questions profile isProfile isNewServer connectionStore defaultProfileValues =
     [\<lparr>qtype = QuestionTypes_input, qname = ''server'', message = ''Server name'',
       placeHolder = None, qdefault = JUndefined, shouldPrompt = None,
       onAnswered = Some (\<lambda>v p. p\<lparr>server := v\<rparr>)\<rparr>,
      \<lparr>qtype = QuestionTypes_other ''expand'', qname = ''authenticationType'',
       message = ''Authentication type'', placeHolder = None, qdefault = JUndefined,
       shouldPrompt = None,
       onAnswered = Some (\<lambda>v p. p\<lparr>authenticationType := v\<rparr>)\<rparr>]"

definition unguarded_world :: "unit world" where
  "unguarded_world =
     single_choice_world\<lparr>getRequiredCredentialValuesQuestions := unguarded_questions\<rparr>"

definition override_script :: "response list" where
  "override_script =
     [Answer (JStr ''db1''), Answer (JStr ''Integrated''), Answer (JStr ''local'')]"

definition override_draft :: ConnectionProfile where
  "override_draft =
     \<lparr>connectionString = JUndefined, authenticationType = JStr ''Integrated'',
      server = JStr ''db1'', user = JUndefined, profileName = JStr ''local'',
      savePassword = JUndefined, emptyPasswordInput = JUndefined\<rparr>"

definition offline_single_choice_world :: "unit world" where
  "offline_single_choice_world =
     single_choice_world\<lparr>azureController_init := Some (Error ''offline'')\<rparr>"

section \<open>Validation\<close>

lemma isNotEmpty_truthy: "isNotEmpty v = truthy v"
  by (cases v) (simp_all add: isNotEmpty_def)

lemma isNotEmpty_simps:
  "isNotEmpty JUndefined = False"
  "isNotEmpty JNull = False"
  "isNotEmpty (JBool b) = b"
  "isNotEmpty (JStr s) = (s \<noteq> [])"
  by (simp_all add: isNotEmpty_def)

text \<open>
  C1: \<^verbatim>\<open>isValidProfile\<close> is true exactly when the validity rule holds. The result
  is true if the connection string is non-empty, whatever the other fields; otherwise
  false if the authentication type is unset; otherwise, for Integrated and
  ActiveDirectoryUniversal, true iff the server is non-empty; for every other
  authentication type, true iff the server and the user are both non-empty. The second
  conjunct is the same rule as the spec's data model words it. A field counts as
  non-empty, and an authentication type as set, when the code's truthiness test accepts
  it: the value is neither \<^verbatim>\<open>undefined\<close> nor the empty string.
\<close>

theorem isValidProfile_validity_rule:
  "isValidProfile p =
     (if isNotEmpty (connectionString p) then True
      else if \<not> truthy (authenticationType p) then False
      else if authenticationType p = JStr ''Integrated'' \<or>
              authenticationType p = JStr ''ActiveDirectoryUniversal''
           then isNotEmpty (server p)
           else isNotEmpty (server p) \<and> isNotEmpty (user p))
   \<and> isValidProfile p = valid_spec p"
  by (simp add: isValidProfile_def valid_spec_def no_explicit_user_mode_def isNotEmpty_truthy)

section \<open>The continuation of the prompt\<close>

lemmas run_defs =
  createProfile_def promptResult_def draftBeforePrompt_def example_world_def
  scripted_prompter_def buildQuestions_def example_questions_def presetAuthenticationType_def
  new_ConnectionProfile_def savePasswordQuestion_def profileNameQuestion_def
  savePassword_shouldPrompt_def savePassword_onAnswered_def profileName_onAnswered_def
  promptCompleted_def isAzureActiveDirectory_def authenticationExchange_def

lemma createProfile_prompts:
  "createProfile w prompter s d =
     (let (answers, draft) =
            prompter (buildQuestions w (draftBeforePrompt w) s d) True (draftBeforePrompt w)
      in promptCompleted w draft answers)"
  by (simp add: createProfile_def draftBeforePrompt_def Let_def)

lemma createProfile_promptCompleted:
  "createProfile w prompter s d =
     promptCompleted w (snd (promptResult w prompter s d)) (fst (promptResult w prompter s d))"
  by (simp add: createProfile_prompts promptResult_def split: prod.splits)

lemma exchange_invoked_authenticationExchange:
  "exchange_invoked (fst (authenticationExchange w))"
  by (simp add: authenticationExchange_def exchange_invoked_def split: option.splits sum.splits)

lemma validator_not_in_authenticationExchange:
  "\<not> validator_run (fst (authenticationExchange w))"
  by (auto simp add: authenticationExchange_def validator_run_def split: option.splits sum.splits)

lemma exchange_invoked_append_validator:
  "exchange_invoked (cs @ [Call_isValidProfile]) = exchange_invoked cs"
  by (auto simp add: exchange_invoked_def)

lemma promptCompleted_exchange_invoked:
  "exchange_invoked (calls (promptCompleted w p a)) = isAzureActiveDirectory p"
  using exchange_invoked_authenticationExchange [of w]
  by (cases "authenticationExchange w")
     (auto simp add: promptCompleted_def exchange_invoked_append_validator
        split: option.splits, simp_all add: exchange_invoked_def)

lemma promptCompleted_validator_run:
  "validator_run (calls (promptCompleted w p a)) =
     (a \<noteq> None \<and> (isAzureActiveDirectory p \<longrightarrow> exchange_failure w = None))"
  using validator_not_in_authenticationExchange [of w]
  by (cases "authenticationExchange w")
     (auto simp add: promptCompleted_def exchange_failure_def validator_run_def
        split: option.splits)

lemma promptCompleted_result:
  "result (promptCompleted w p a) =
     (if isAzureActiveDirectory p \<and> exchange_failure w \<noteq> None
      then Inl (the (exchange_failure w))
      else Inr (if a \<noteq> None \<and> isValidProfile p then Some p else None))"
  by (cases "authenticationExchange w")
     (auto simp add: promptCompleted_def exchange_failure_def split: option.splits)

text \<open>
  The continuation, branch by branch, in terms of what the collaborators do.
\<close>

lemma promptCompleted_run:
  "promptCompleted w p a =
     (if isAzureActiveDirectory p then
        (case azureController_init w of
           Some e \<Rightarrow> \<lparr>result = Inl e, calls = [Call_AzureController_new, Call_init]\<rparr>
         | None \<Rightarrow>
             (case azureCodeGrant_startLogin w of
                Inl e \<Rightarrow>
                  \<lparr>result = Inl e,
                   calls = [Call_AzureController_new, Call_init, Call_AzureCodeGrant_new,
                            Call_startLogin]\<rparr>
              | Inr l \<Rightarrow>
                  \<lparr>result = Inr (if a \<noteq> None \<and> isValidProfile p then Some p else None),
                   calls = [Call_AzureController_new, Call_init, Call_AzureCodeGrant_new,
                            Call_startLogin, Call_console_log l]
                           @ (if a \<noteq> None then [Call_isValidProfile] else [])\<rparr>))
      else \<lparr>result = Inr (if a \<noteq> None \<and> isValidProfile p then Some p else None),
            calls = (if a \<noteq> None then [Call_isValidProfile] else [])\<rparr>)"
  by (simp add: promptCompleted_def authenticationExchange_def
      split: option.splits sum.splits)

lemma createProfile_run:
  assumes "promptResult w prompter s d = (answers, draft)"
  shows "createProfile w prompter s d = promptCompleted w draft answers"
  using assms by (simp add: createProfile_promptCompleted)

text \<open>
  An aborted prompt, for every world and prompter: the validator is not run, and the call
  resolves to \<^verbatim>\<open>undefined\<close> unless the exchange runs and raises a failure. The
  exchange runs exactly when the draft's type is ActiveDirectoryUniversal.
\<close>

lemma aborted_prompt_outcome:
  assumes "promptResult w prompter s d = (None, draft)"
  shows "\<not> validator_run (calls (createProfile w prompter s d))"
    and "exchange_invoked (calls (createProfile w prompter s d)) = isAzureActiveDirectory draft"
    and "\<not> isAzureActiveDirectory draft \<or> exchange_failure w = None
           \<Longrightarrow> result (createProfile w prompter s d) = Inr None"
  using assms
  by (auto simp add: createProfile_promptCompleted promptCompleted_validator_run
      promptCompleted_exchange_invoked promptCompleted_result)

subsection \<open>Runs of the prompt\<close>

lemma azure_promptResult:
  "promptResult example_world (scripted_prompter azure_script) () None
     = (Some azure_answers, azure_draft)"
  by (simp add: run_defs azure_script_def azure_answers_def azure_draft_def)

lemma offline_promptResult:
  "promptResult offline_world (scripted_prompter azure_script) () None
     = (Some azure_answers, azure_draft)"
  by (simp add: run_defs offline_world_def azure_script_def azure_answers_def azure_draft_def)

lemma cancel_promptResult:
  "promptResult example_world (scripted_prompter [Escape]) () None = (None, new_ConnectionProfile)"
  by (simp add: run_defs)

lemma login_throws_promptResult:
  "promptResult login_throws_world (scripted_prompter azure_script) () None
     = (Some azure_answers, azure_draft)"
  by (simp add: run_defs login_throws_world_def azure_script_def azure_answers_def azure_draft_def)

lemma failed_login_promptResult:
  "promptResult failed_login_world (scripted_prompter azure_script) () None
     = (Some azure_answers, azure_draft)"
  by (simp add: run_defs failed_login_world_def azure_script_def azure_answers_def azure_draft_def)

lemma azure_draft_facts:
  "authenticationType azure_draft = JStr ''ActiveDirectoryUniversal''"
  "isAzureActiveDirectory azure_draft"
  "isNotEmpty (server azure_draft)"
  "user azure_draft = JUndefined"
  "isValidProfile azure_draft"
  by (simp_all add: azure_draft_def isAzureActiveDirectory_def isValidProfile_def
      isNotEmpty_simps)

lemma world_facts:
  "azureController_init example_world = None"
  "azureCodeGrant_startLogin example_world = Inr LoginPending"
  "azureController_init offline_world = Some (Error ''offline'')"
  "azureController_init login_throws_world = None"
  "azureCodeGrant_startLogin login_throws_world = Inl (Error ''no browser'')"
  "azureController_init failed_login_world = None"
  "azureCodeGrant_startLogin failed_login_world = Inr (LoginFailed (Error ''denied''))"
  by (simp_all add: example_world_def offline_world_def login_throws_world_def
      failed_login_world_def)

lemma override_promptResult:
  "promptResult unguarded_world (scripted_prompter override_script) () None
     = (Some [(''server'', JStr ''db1''), (''authenticationType'', JStr ''Integrated''),
              (''Profile Name'', JStr ''local'')],
        override_draft)"
  by (simp add: run_defs unguarded_world_def single_choice_world_def unguarded_questions_def
      override_script_def override_draft_def)

lemma draftBeforePrompt_single:
  "getAuthenticationTypesChoice w = [c] \<Longrightarrow> draftBeforePrompt w
     = new_ConnectionProfile\<lparr>authenticationType := choice_value c\<rparr>"
  by (simp add: draftBeforePrompt_def presetAuthenticationType_def)

lemma draftBeforePrompt_several:
  "length (getAuthenticationTypesChoice w) \<noteq> 1 \<Longrightarrow> draftBeforePrompt w = new_ConnectionProfile"
  by (simp add: draftBeforePrompt_def presetAuthenticationType_def)

section \<open>Properties of createProfile\<close>

text \<open>
  C2: on an aborted prompt \<^verbatim>\<open>createProfile\<close> should return
  \<^verbatim>\<open>undefined\<close> without invoking the authentication exchange or the validator.
  The code tests \<^verbatim>\<open>isAzureActiveDirectory\<close> (line 71) before it looks at the
  answers (line 82). Here the user names a server, picks ActiveDirectoryUniversal and
  leaves at the profile-name question: the prompt resolves to \<^verbatim>\<open>undefined\<close>, the
  draft already carries the type, and the controller is initialised and the login started.
  The validator is not run and the result is \<^verbatim>\<open>undefined\<close>; in the offline world
  the same cancellation rejects with the controller's failure.
\<close>

theorem createProfile_aborted_prompt_runs_exchange:
  "promptResult example_world (scripted_prompter abort_script) () None = (None, abort_draft)
   \<and> createProfile example_world (scripted_prompter abort_script) () None
       = \<lparr>result = Inr None,
          calls = [Call_AzureController_new, Call_init, Call_AzureCodeGrant_new, Call_startLogin,
                   Call_console_log LoginPending]\<rparr>
   \<and> exchange_invoked (calls (createProfile example_world (scripted_prompter abort_script) () None))
   \<and> createProfile offline_world (scripted_prompter abort_script) () None
       = \<lparr>result = Inl (Error ''offline''), calls = [Call_AzureController_new, Call_init]\<rparr>"
  by (simp add: run_defs abort_script_def abort_draft_def offline_world_def exchange_invoked_def)

text \<open>
  C3, as the code has it: once the prompt has completed, \<^verbatim>\<open>createProfile\<close>
  performs the authentication exchange exactly when the draft's authentication type is
  ActiveDirectoryUniversal. With any other type none of the exchange's calls is made.
  With that type the controller is constructed and initialised; if the initialisation
  fails the call rejects there, otherwise the grant handler is constructed and
  \<^verbatim>\<open>startLogin\<close> called; if it throws the call rejects there, otherwise its
  result is logged. In particular, for such a draft with a non-empty server and answers
  obtained, when \<^verbatim>\<open>init\<close> resolves and \<^verbatim>\<open>startLogin\<close> returns, the
  call returns the draft after the whole exchange has run, and the draft is valid; the
  user field is not looked at, so this holds with no user.
\<close>

theorem createProfile_performs_exchange_iff_ActiveDirectoryUniversal:
  assumes "promptResult w prompter connectionStore defaults = (answers, draft)"
  shows "(authenticationType draft \<noteq> JStr ''ActiveDirectoryUniversal''
            \<longrightarrow> calls (createProfile w prompter connectionStore defaults)
                  = (if answers \<noteq> None then [Call_isValidProfile] else []))
       \<and> (authenticationType draft = JStr ''ActiveDirectoryUniversal'' \<and>
          azureController_init w = Some e
            \<longrightarrow> createProfile w prompter connectionStore defaults
                  = \<lparr>result = Inl e, calls = [Call_AzureController_new, Call_init]\<rparr>)
       \<and> (authenticationType draft = JStr ''ActiveDirectoryUniversal'' \<and>
          azureController_init w = None \<and> azureCodeGrant_startLogin w = Inl e
            \<longrightarrow> createProfile w prompter connectionStore defaults
                  = \<lparr>result = Inl e,
                     calls = [Call_AzureController_new, Call_init, Call_AzureCodeGrant_new,
                              Call_startLogin]\<rparr>)
       \<and> (authenticationType draft = JStr ''ActiveDirectoryUniversal'' \<and>
          azureController_init w = None \<and> azureCodeGrant_startLogin w = Inr l
            \<longrightarrow> calls (createProfile w prompter connectionStore defaults)
                  = [Call_AzureController_new, Call_init, Call_AzureCodeGrant_new,
                     Call_startLogin, Call_console_log l]
                    @ (if answers \<noteq> None then [Call_isValidProfile] else []))
       \<and> (authenticationType draft = JStr ''ActiveDirectoryUniversal'' \<and>
          isNotEmpty (server draft) \<and> answers \<noteq> None \<and>
          azureController_init w = None \<and> azureCodeGrant_startLogin w = Inr l
            \<longrightarrow> isValidProfile draft
                \<and> createProfile w prompter connectionStore defaults
                    = \<lparr>result = Inr (Some draft),
                       calls = [Call_AzureController_new, Call_init, Call_AzureCodeGrant_new,
                                Call_startLogin, Call_console_log l, Call_isValidProfile]\<rparr>)"
  using assms
  by (simp add: createProfile_promptCompleted promptCompleted_run isAzureActiveDirectory_def
      isValidProfile_def isNotEmpty_truthy)

theorem createProfile_performs_exchange_iff_ActiveDirectoryUniversal_witness:
  "promptResult example_world (scripted_prompter azure_script) () None
     = (Some azure_answers, azure_draft)
   \<and> authenticationType azure_draft = JStr ''ActiveDirectoryUniversal''
   \<and> isNotEmpty (server azure_draft)
   \<and> user azure_draft = JUndefined
   \<and> azureController_init example_world = None
   \<and> azureCodeGrant_startLogin example_world = Inr LoginPending
   \<and> isValidProfile azure_draft
   \<and> createProfile example_world (scripted_prompter azure_script) () None
       = \<lparr>result = Inr (Some azure_draft),
          calls = [Call_AzureController_new, Call_init, Call_AzureCodeGrant_new,
                   Call_startLogin, Call_console_log LoginPending, Call_isValidProfile]\<rparr>
   \<and> promptResult example_world (scripted_prompter [Escape]) () None
       = (None, new_ConnectionProfile)
   \<and> authenticationType new_ConnectionProfile \<noteq> JStr ''ActiveDirectoryUniversal''
   \<and> calls (createProfile example_world (scripted_prompter [Escape]) () None) = []"
proof -
  have n: "authenticationType new_ConnectionProfile \<noteq> JStr ''ActiveDirectoryUniversal''"
    by (simp add: new_ConnectionProfile_def)
  from createProfile_performs_exchange_iff_ActiveDirectoryUniversal
         [OF azure_promptResult, of _ LoginPending] azure_draft_facts world_facts
  have 1: "createProfile example_world (scripted_prompter azure_script) () None
       = \<lparr>result = Inr (Some azure_draft),
          calls = [Call_AzureController_new, Call_init, Call_AzureCodeGrant_new,
                   Call_startLogin, Call_console_log LoginPending, Call_isValidProfile]\<rparr>"
    by simp
  from createProfile_performs_exchange_iff_ActiveDirectoryUniversal [OF cancel_promptResult] n
  have 2: "calls (createProfile example_world (scripted_prompter [Escape]) () None) = []"
    by simp
  show ?thesis
    using azure_promptResult cancel_promptResult azure_draft_facts world_facts n 1 2 by simp
qed

text \<open>
  The claim as the spec words it promises the valid profile whenever the exchange runs.
  In the offline world the draft is ActiveDirectoryUniversal with a server and no user and
  the answers are obtained, the exchange runs, and the call rejects with the controller's
  failure instead of returning the profile.
\<close>

theorem createProfile_ActiveDirectoryUniversal_without_user_counterexample:
  "promptResult offline_world (scripted_prompter azure_script) () None
     = (Some azure_answers, azure_draft)
   \<and> authenticationType azure_draft = JStr ''ActiveDirectoryUniversal''
   \<and> isNotEmpty (server azure_draft)
   \<and> user azure_draft = JUndefined
   \<and> createProfile offline_world (scripted_prompter azure_script) () None
       = \<lparr>result = Inl (Error ''offline''), calls = [Call_AzureController_new, Call_init]\<rparr>"
  by (simp add: offline_promptResult azure_draft_facts createProfile_run [OF offline_promptResult]
      promptCompleted_run world_facts)

text \<open>
  C4, as the code has it: the validator runs only when the prompt returned answers. For
  every run in which answers were obtained and the exchange raises no failure (the draft
  is not ActiveDirectoryUniversal, or \<^verbatim>\<open>init\<close> resolves and
  \<^verbatim>\<open>startLogin\<close> returns), the returned value is the draft if the validator
  accepts it and \<^verbatim>\<open>undefined\<close> if not, whatever value \<^verbatim>\<open>startLogin\<close>
  handed back: a login that succeeded, one that failed, one still running and never
  awaited. When \<^verbatim>\<open>init\<close> fails or \<^verbatim>\<open>startLogin\<close> throws, the call
  rejects with that failure and the validator is not run.
\<close>

theorem createProfile_validity_ignores_login_value:
  assumes "promptResult w prompter connectionStore defaults = (answers, draft)"
  shows "(validator_run (calls (createProfile w prompter connectionStore defaults))
            \<longrightarrow> answers \<noteq> None)
       \<and> (answers \<noteq> None \<and> \<not> isAzureActiveDirectory draft
            \<longrightarrow> createProfile w prompter connectionStore defaults
                  = \<lparr>result = Inr (if isValidProfile draft then Some draft else None),
                     calls = [Call_isValidProfile]\<rparr>)
       \<and> (answers \<noteq> None \<and> isAzureActiveDirectory draft \<and>
          azureController_init w = None \<and> azureCodeGrant_startLogin w = Inr l
            \<longrightarrow> createProfile w prompter connectionStore defaults
                  = \<lparr>result = Inr (if isValidProfile draft then Some draft else None),
                     calls = [Call_AzureController_new, Call_init, Call_AzureCodeGrant_new,
                              Call_startLogin, Call_console_log l, Call_isValidProfile]\<rparr>)
       \<and> (answers \<noteq> None \<and> isAzureActiveDirectory draft \<and> azureController_init w = Some e
            \<longrightarrow> createProfile w prompter connectionStore defaults
                  = \<lparr>result = Inl e, calls = [Call_AzureController_new, Call_init]\<rparr>)
       \<and> (answers \<noteq> None \<and> isAzureActiveDirectory draft \<and>
          azureController_init w = None \<and> azureCodeGrant_startLogin w = Inl e
            \<longrightarrow> createProfile w prompter connectionStore defaults
                  = \<lparr>result = Inl e,
                     calls = [Call_AzureController_new, Call_init, Call_AzureCodeGrant_new,
                              Call_startLogin]\<rparr>)"
  using assms
  by (auto simp add: createProfile_promptCompleted promptCompleted_run validator_run_def
      split: option.splits sum.splits if_splits)

theorem createProfile_validity_ignores_login_value_witness:
  "promptResult failed_login_world (scripted_prompter azure_script) () None
     = (Some azure_answers, azure_draft)
   \<and> isAzureActiveDirectory azure_draft
   \<and> isValidProfile azure_draft
   \<and> azureController_init failed_login_world = None
   \<and> azureCodeGrant_startLogin failed_login_world = Inr (LoginFailed (Error ''denied''))
   \<and> createProfile failed_login_world (scripted_prompter azure_script) () None
       = \<lparr>result = Inr (Some azure_draft),
          calls = [Call_AzureController_new, Call_init, Call_AzureCodeGrant_new,
                   Call_startLogin, Call_console_log (LoginFailed (Error ''denied'')),
                   Call_isValidProfile]\<rparr>
   \<and> promptResult example_world (scripted_prompter azure_script) () None
       = (Some azure_answers, azure_draft)
   \<and> azureCodeGrant_startLogin example_world = Inr LoginPending
   \<and> result (createProfile example_world (scripted_prompter azure_script) () None)
       = Inr (Some azure_draft)
   \<and> validator_run (calls (createProfile example_world (scripted_prompter azure_script) () None))"
proof -
  from createProfile_validity_ignores_login_value
         [OF failed_login_promptResult, of "LoginFailed (Error ''denied'')"]
       azure_draft_facts world_facts
  have 1: "createProfile failed_login_world (scripted_prompter azure_script) () None
       = \<lparr>result = Inr (Some azure_draft),
          calls = [Call_AzureController_new, Call_init, Call_AzureCodeGrant_new,
                   Call_startLogin, Call_console_log (LoginFailed (Error ''denied'')),
                   Call_isValidProfile]\<rparr>"
    by simp
  from createProfile_validity_ignores_login_value [OF azure_promptResult, of LoginPending]
       azure_draft_facts world_facts
  have 2: "createProfile example_world (scripted_prompter azure_script) () None
       = \<lparr>result = Inr (Some azure_draft),
          calls = [Call_AzureController_new, Call_init, Call_AzureCodeGrant_new,
                   Call_startLogin, Call_console_log LoginPending, Call_isValidProfile]\<rparr>"
    by simp
  show ?thesis
    using failed_login_promptResult azure_promptResult azure_draft_facts world_facts 1
    by (simp add: 2 validator_run_def)
qed

text \<open>
  The claim as the spec words it makes the returned value the validator's verdict in
  every run with answers, whatever becomes of the exchange. Where
  \<^verbatim>\<open>startLogin\<close> throws, the answers are obtained and the validator would accept
  the draft, yet the call rejects and the validator is never run.
\<close>

theorem createProfile_validity_exchange_failure_counterexample:
  "promptResult login_throws_world (scripted_prompter azure_script) () None
     = (Some azure_answers, azure_draft)
   \<and> isValidProfile azure_draft
   \<and> createProfile login_throws_world (scripted_prompter azure_script) () None
       = \<lparr>result = Inl (Error ''no browser''),
          calls = [Call_AzureController_new, Call_init, Call_AzureCodeGrant_new,
                   Call_startLogin]\<rparr>
   \<and> \<not> validator_run
         (calls (createProfile login_throws_world (scripted_prompter azure_script) () None))"
  by (simp add: login_throws_promptResult azure_draft_facts
      createProfile_run [OF login_throws_promptResult] promptCompleted_run world_facts
      validator_run_def)

text \<open>
  C5, as the code has it: a value \<^verbatim>\<open>createProfile\<close> returns is
  \<^verbatim>\<open>undefined\<close> or the draft, which then passes validation. With a draft that is
  not ActiveDirectoryUniversal the call never fails: a cancelled prompt or an invalid
  draft gives \<^verbatim>\<open>undefined\<close>. With an ActiveDirectoryUniversal draft and answers
  obtained, a failure of \<^verbatim>\<open>init\<close> or a throw of \<^verbatim>\<open>startLogin\<close> is
  not caught and becomes the result of the call; when both return, the result is the
  validator's verdict for every value \<^verbatim>\<open>startLogin\<close> hands back, so a login
  that fails later is not propagated. A call fails only with a failure that
  \<^verbatim>\<open>init\<close> or \<^verbatim>\<open>startLogin\<close> raised.
\<close>

theorem createProfile_results:
  assumes "promptResult w prompter connectionStore defaults = (answers, draft)"
  shows "(result (createProfile w prompter connectionStore defaults) = Inr (Some p)
            \<longrightarrow> p = draft \<and> isValidProfile p \<and> answers \<noteq> None)
       \<and> (\<not> isAzureActiveDirectory draft
            \<longrightarrow> result (createProfile w prompter connectionStore defaults)
                  = Inr (if answers \<noteq> None \<and> isValidProfile draft then Some draft else None))
       \<and> (answers \<noteq> None \<and> isAzureActiveDirectory draft \<and> azureController_init w = Some e
            \<longrightarrow> result (createProfile w prompter connectionStore defaults) = Inl e)
       \<and> (answers \<noteq> None \<and> isAzureActiveDirectory draft \<and>
          azureController_init w = None \<and> azureCodeGrant_startLogin w = Inl e
            \<longrightarrow> result (createProfile w prompter connectionStore defaults) = Inl e)
       \<and> (answers \<noteq> None \<and> isAzureActiveDirectory draft \<and>
          azureController_init w = None \<and> azureCodeGrant_startLogin w = Inr l
            \<longrightarrow> result (createProfile w prompter connectionStore defaults)
                  = Inr (if isValidProfile draft then Some draft else None))
       \<and> (result (createProfile w prompter connectionStore defaults) = Inl e
            \<longrightarrow> isAzureActiveDirectory draft \<and>
                (azureController_init w = Some e \<or>
                 azureController_init w = None \<and> azureCodeGrant_startLogin w = Inl e))"
  using assms
  by (auto simp add: createProfile_promptCompleted promptCompleted_run
      split: option.splits sum.splits if_splits)

theorem createProfile_results_witness:
  "promptResult offline_world (scripted_prompter azure_script) () None
     = (Some azure_answers, azure_draft)
   \<and> isAzureActiveDirectory azure_draft
   \<and> azureController_init offline_world = Some (Error ''offline'')
   \<and> result (createProfile offline_world (scripted_prompter azure_script) () None)
       = Inl (Error ''offline'')
   \<and> promptResult login_throws_world (scripted_prompter azure_script) () None
       = (Some azure_answers, azure_draft)
   \<and> azureController_init login_throws_world = None
   \<and> azureCodeGrant_startLogin login_throws_world = Inl (Error ''no browser'')
   \<and> result (createProfile login_throws_world (scripted_prompter azure_script) () None)
       = Inl (Error ''no browser'')
   \<and> promptResult example_world (scripted_prompter [Escape]) () None
       = (None, new_ConnectionProfile)
   \<and> \<not> isAzureActiveDirectory new_ConnectionProfile
   \<and> result (createProfile example_world (scripted_prompter [Escape]) () None) = Inr None
   \<and> promptResult example_world (scripted_prompter azure_script) () None
       = (Some azure_answers, azure_draft)
   \<and> isValidProfile azure_draft
   \<and> result (createProfile example_world (scripted_prompter azure_script) () None)
       = Inr (Some azure_draft)"
proof -
  have n: "\<not> isAzureActiveDirectory new_ConnectionProfile"
    by (simp add: isAzureActiveDirectory_def new_ConnectionProfile_def)
  from createProfile_results [OF offline_promptResult, of _ "Error ''offline''"]
       azure_draft_facts world_facts
  have 1: "result (createProfile offline_world (scripted_prompter azure_script) () None)
             = Inl (Error ''offline'')"
    by simp
  from createProfile_results [OF login_throws_promptResult, of _ "Error ''no browser''"]
       azure_draft_facts world_facts
  have 2: "result (createProfile login_throws_world (scripted_prompter azure_script) () None)
             = Inl (Error ''no browser'')"
    by simp
  from createProfile_results [OF cancel_promptResult] n
  have 3: "result (createProfile example_world (scripted_prompter [Escape]) () None) = Inr None"
    by simp
  from createProfile_results [OF azure_promptResult, of _ _ LoginPending]
       azure_draft_facts world_facts
  have 4: "result (createProfile example_world (scripted_prompter azure_script) () None)
             = Inr (Some azure_draft)"
    by simp
  show ?thesis
    using offline_promptResult login_throws_promptResult cancel_promptResult azure_promptResult
      azure_draft_facts world_facts n 1 2 3 4
    by simp
qed

text \<open>
  The claim as the spec words it has every failure of the login flow propagate, and no
  failure on a cancelled prompt. A login that \<^verbatim>\<open>startLogin\<close> returns as failed
  is logged and the profile is returned; and with a single ActiveDirectoryUniversal choice
  and a failing controller, a prompt cancelled at its first question rejects.
\<close>

theorem createProfile_failed_login_not_propagated_counterexample:
  "promptResult failed_login_world (scripted_prompter azure_script) () None
     = (Some azure_answers, azure_draft)
   \<and> azureCodeGrant_startLogin failed_login_world = Inr (LoginFailed (Error ''denied''))
   \<and> Call_startLogin
       \<in> set (calls (createProfile failed_login_world (scripted_prompter azure_script) () None))
   \<and> result (createProfile failed_login_world (scripted_prompter azure_script) () None)
       = Inr (Some azure_draft)
   \<and> promptResult offline_single_choice_world (scripted_prompter [Escape]) () None
       = (None, new_ConnectionProfile\<lparr>authenticationType := JStr ''ActiveDirectoryUniversal''\<rparr>)
   \<and> result (createProfile offline_single_choice_world (scripted_prompter [Escape]) () None)
       = Inl (Error ''offline'')"
  by (simp add: failed_login_promptResult azure_draft_facts
      createProfile_run [OF failed_login_promptResult] promptCompleted_run world_facts)
     (simp add: run_defs offline_single_choice_world_def single_choice_world_def)

section \<open>Properties of the questions\<close>

text \<open>
  C6: the save-password question, the first after the credential layer's questions, is
  shown iff the draft has no connection string and the external classifier reports a
  password-based credential. For a draft that carries a connection string the predicate
  is false, whatever the authentication type and the classifier.
\<close>

theorem savePassword_question_visibility:
  "shouldPrompt
     (buildQuestions w profile connectionStore defaults
        ! length (getRequiredCredentialValuesQuestions w profile True False connectionStore defaults))
     = Some (savePassword_shouldPrompt w)
   \<and> savePassword_shouldPrompt w answers draft
       = (\<not> truthy (connectionString draft) \<and> isPasswordBasedCredential w draft)
   \<and> (truthy (connectionString draft) \<longrightarrow> savePassword_shouldPrompt w answers draft = False)"
  by (simp add: buildQuestions_def savePasswordQuestion_def savePassword_shouldPrompt_def)

theorem savePassword_question_visibility_witness:
  "truthy (connectionString connection_string_draft)
   \<and> isPasswordBasedCredential example_world connection_string_draft
   \<and> savePassword_shouldPrompt example_world [] connection_string_draft = False"
proof -
  have t: "truthy (connectionString connection_string_draft)"
    by (simp add: connection_string_draft_def)
  have c: "isPasswordBasedCredential example_world connection_string_draft"
    by (simp add: example_world_def connection_string_draft_def)
  from savePassword_question_visibility [of example_world _ _ _ "[]" connection_string_draft] t
  show ?thesis
    using c by simp
qed

text \<open>
  C7: the answer callback of the profile-name question sets \<^verbatim>\<open>profileName\<close> to
  the answer when the answer is truthy, and to \<^verbatim>\<open>undefined\<close> when it is empty or
  falsy. The name it leaves is never the empty string, and it does not depend on the name
  the draft had before.
\<close>

theorem profileName_answer_callback:
  "onAnswered (profileNameQuestion w defaults) = Some profileName_onAnswered
   \<and> (truthy v \<longrightarrow> profileName (profileName_onAnswered v p) = v)
   \<and> (\<not> truthy v \<longrightarrow> profileName (profileName_onAnswered v p) = JUndefined)
   \<and> profileName (profileName_onAnswered v p) \<noteq> JStr []
   \<and> profileName_onAnswered v (p\<lparr>profileName := stale\<rparr>) = profileName_onAnswered v p"
  by (auto simp add: profileNameQuestion_def profileName_onAnswered_def)

theorem profileName_answer_callback_witness:
  "\<not> truthy (JStr [])
   \<and> profileName stale_name_draft = JStr ''old name''
   \<and> profileName (profileName_onAnswered (JStr []) stale_name_draft) = JUndefined
   \<and> truthy (JStr ''prod'')
   \<and> profileName (profileName_onAnswered (JStr ''prod'') stale_name_draft) = JStr ''prod''"
proof -
  have o: "profileName stale_name_draft = JStr ''old name''"
    by (simp add: stale_name_draft_def)
  from profileName_answer_callback [of example_world None "JStr []" stale_name_draft JUndefined]
  have e: "profileName (profileName_onAnswered (JStr []) stale_name_draft) = JUndefined"
    by simp
  from profileName_answer_callback
         [of example_world None "JStr ''prod''" stale_name_draft JUndefined]
  have n: "profileName (profileName_onAnswered (JStr ''prod'') stale_name_draft) = JStr ''prod''"
    by simp
  show ?thesis
    using o e n by simp
qed

text \<open>
  C8, as the code has it: when the credential layer offers exactly one authentication
  choice, the draft carries that choice's value before the credential layer is asked for
  its questions and before the prompt starts; with any other number of choices the draft
  is still the empty one. \<^verbatim>\<open>createProfile\<close> itself adds no question that
  selects the authentication type: the prompt is given the credential layer's list for
  that draft, unfiltered, and the two appended questions, and a question of that list that
  is not the credential layer's leaves the authentication type as it was.
\<close>

theorem single_authentication_choice_preassigned_before_questions:
  "(getAuthenticationTypesChoice w = [c]
      \<longrightarrow> draftBeforePrompt w = new_ConnectionProfile\<lparr>authenticationType := choice_value c\<rparr>
          \<and> authenticationType (draftBeforePrompt w) = choice_value c)
   \<and> (length (getAuthenticationTypesChoice w) \<noteq> 1
      \<longrightarrow> draftBeforePrompt w = new_ConnectionProfile
          \<and> authenticationType (draftBeforePrompt w) = JUndefined)
   \<and> createProfile w prompter connectionStore defaults
       = (let (answers, draft) =
                prompter
                  (getRequiredCredentialValuesQuestions w (draftBeforePrompt w) True False
                     connectionStore defaults
                   @ [savePasswordQuestion w, profileNameQuestion w defaults])
                  True (draftBeforePrompt w)
          in promptCompleted w draft answers)
   \<and> (q \<in> set (buildQuestions w (draftBeforePrompt w) connectionStore defaults) \<and>
      q \<notin> set (getRequiredCredentialValuesQuestions w (draftBeforePrompt w) True False
                  connectionStore defaults)
      \<longrightarrow> authenticationType (answer_effect q v p) = authenticationType p)"
  by (auto simp add: draftBeforePrompt_single draftBeforePrompt_several new_ConnectionProfile_def
      createProfile_prompts buildQuestions_def savePasswordQuestion_def profileNameQuestion_def
      savePassword_onAnswered_def profileName_onAnswered_def answer_effect_def)

theorem single_authentication_choice_preassigned_before_questions_witness:
  "getAuthenticationTypesChoice single_choice_world
     = [\<lparr>choice_name = ''Active Directory'', choice_value = JStr ''ActiveDirectoryUniversal''\<rparr>]
   \<and> authenticationType (draftBeforePrompt single_choice_world) = JStr ''ActiveDirectoryUniversal''
   \<and> length (getAuthenticationTypesChoice example_world) = 3
   \<and> authenticationType (draftBeforePrompt example_world) = JUndefined
   \<and> profileNameQuestion example_world None
       \<in> set (buildQuestions example_world (draftBeforePrompt example_world) () None)
   \<and> profileNameQuestion example_world None
       \<notin> set (getRequiredCredentialValuesQuestions example_world
                 (draftBeforePrompt example_world) True False () None)
   \<and> authenticationType
        (answer_effect (profileNameQuestion example_world None) (JStr ''prod'') azure_draft)
       = JStr ''ActiveDirectoryUniversal''"
proof -
  have 1: "getAuthenticationTypesChoice single_choice_world
             = [\<lparr>choice_name = ''Active Directory'',
                 choice_value = JStr ''ActiveDirectoryUniversal''\<rparr>]"
    by (simp add: single_choice_world_def)
  have 3: "length (getAuthenticationTypesChoice example_world) = 3"
    by (simp add: example_world_def)
  have m: "profileNameQuestion example_world None
             \<in> set (buildQuestions example_world (draftBeforePrompt example_world) () None)"
    by (simp add: buildQuestions_def)
  have n: "profileNameQuestion example_world None
             \<notin> set (getRequiredCredentialValuesQuestions example_world
                       (draftBeforePrompt example_world) True False () None)"
    by (simp add: example_world_def example_questions_def profileNameQuestion_def)
  from single_authentication_choice_preassigned_before_questions [of single_choice_world] 1
  have a: "authenticationType (draftBeforePrompt single_choice_world)
             = JStr ''ActiveDirectoryUniversal''"
    by simp
  note ex = single_authentication_choice_preassigned_before_questions
         [where w = example_world and connectionStore = "()" and defaults = None
            and q = "profileNameQuestion example_world None" and v = "JStr ''prod''"
            and p = azure_draft and prompter = "scripted_prompter azure_script"
            and c = "\<lparr>choice_name = ''Integrated'', choice_value = JStr ''Integrated''\<rparr>"]
  from ex 3
  have b: "authenticationType (draftBeforePrompt example_world) = JUndefined"
    by (simp add: new_ConnectionProfile_def)
  from ex m n
  have c: "authenticationType
              (answer_effect (profileNameQuestion example_world None) (JStr ''prod'') azure_draft)
            = authenticationType azure_draft"
    by simp
  show ?thesis
    using 1 3 m n a b c azure_draft_facts by simp
qed

text \<open>
  The claim as the spec words it has no question for the authentication type emitted when
  there is one choice. Which questions are emitted is the credential layer's doing: with
  one choice offered and the type assigned, the list handed to the prompt still holds the
  credential layer's authentication-type question, and where that question has no
  visibility predicate the user is asked and the answer replaces the assigned type.
\<close>

theorem single_choice_question_still_emitted_counterexample:
  "getAuthenticationTypesChoice single_choice_world
     = [\<lparr>choice_name = ''Active Directory'', choice_value = JStr ''ActiveDirectoryUniversal''\<rparr>]
   \<and> authenticationType (draftBeforePrompt single_choice_world) = JStr ''ActiveDirectoryUniversal''
   \<and> map qname (buildQuestions single_choice_world (draftBeforePrompt single_choice_world) () None)
       = [''server'', ''authenticationType'', ''user'', ''Save Password?'', ''Profile Name'']
   \<and> getAuthenticationTypesChoice unguarded_world
       = [\<lparr>choice_name = ''Active Directory'', choice_value = JStr ''ActiveDirectoryUniversal''\<rparr>]
   \<and> authenticationType (draftBeforePrompt unguarded_world) = JStr ''ActiveDirectoryUniversal''
   \<and> map qname (buildQuestions unguarded_world (draftBeforePrompt unguarded_world) () None)
       = [''server'', ''authenticationType'', ''Save Password?'', ''Profile Name'']
   \<and> promptResult unguarded_world (scripted_prompter override_script) () None
       = (Some [(''server'', JStr ''db1''), (''authenticationType'', JStr ''Integrated''),
                (''Profile Name'', JStr ''local'')],
          override_draft)
   \<and> authenticationType override_draft = JStr ''Integrated''"
  by (simp add: override_promptResult)
     (simp add: run_defs unguarded_world_def single_choice_world_def unguarded_questions_def
      override_draft_def)

text \<open>
  C9: the question sequence handed to the prompt is the credential layer's questions, in
  their order, followed by exactly two more: the save-password confirmation, then the
  profile-name input.
\<close>

theorem question_sequence_order:
  "length (buildQuestions w profile connectionStore defaults)
     = length (getRequiredCredentialValuesQuestions w profile True False connectionStore defaults) + 2
   \<and> take (length (getRequiredCredentialValuesQuestions w profile True False connectionStore defaults))
        (buildQuestions w profile connectionStore defaults)
       = getRequiredCredentialValuesQuestions w profile True False connectionStore defaults
   \<and> drop (length (getRequiredCredentialValuesQuestions w profile True False connectionStore defaults))
        (buildQuestions w profile connectionStore defaults)
       = [savePasswordQuestion w, profileNameQuestion w defaults]
   \<and> qtype (savePasswordQuestion w) = QuestionTypes_confirm
   \<and> qname (savePasswordQuestion w) = msgSavePassword (localizedConstants w)
   \<and> qtype (profileNameQuestion w defaults) = QuestionTypes_input
   \<and> qname (profileNameQuestion w defaults) = profileNamePrompt (localizedConstants w)
   \<and> createProfile w prompter connectionStore defaults
       = (let (answers, draft) =
                prompter (buildQuestions w (draftBeforePrompt w) connectionStore defaults)
                  True (draftBeforePrompt w)
          in promptCompleted w draft answers)"
  by (simp add: createProfile_prompts)
     (simp add: buildQuestions_def savePasswordQuestion_def profileNameQuestion_def)

section \<open>What validity does not depend on\<close>

text \<open>
  C10: the validity of a profile does not depend on \<^verbatim>\<open>profileName\<close>,
  \<^verbatim>\<open>savePassword\<close> or \<^verbatim>\<open>emptyPasswordInput\<close>: two profiles that agree
  on the connection string, the authentication type, the server and the user get the same
  result, however the other three fields differ.
\<close>

theorem isValidProfile_ignores_name_and_password_flags:
  assumes "connectionString p = connectionString q"
    and "authenticationType p = authenticationType q"
    and "server p = server q"
    and "user p = user q"
  shows "isValidProfile p = isValidProfile q"
  using assms by (simp add: isValidProfile_def)

theorem isValidProfile_ignores_name_and_password_flags_witness:
  "isValidProfile
     \<lparr>connectionString = JUndefined, authenticationType = JStr ''SqlLogin'',
      server = JStr ''db1'', user = JStr ''admin'', profileName = JStr ''prod'',
      savePassword = JBool True, emptyPasswordInput = JBool False\<rparr>
   = isValidProfile
     \<lparr>connectionString = JUndefined, authenticationType = JStr ''SqlLogin'',
      server = JStr ''db1'', user = JStr ''admin'', profileName = JUndefined,
      savePassword = JUndefined, emptyPasswordInput = JBool True\<rparr>"
  by (rule isValidProfile_ignores_name_and_password_flags) simp_all

end
